theory Spec2Isabelle
  imports Main "HOL-Library.Word"
begin

unbundle bit_operations_syntax

section \<open>Vocabulary: commands, events, request tiers, status flags\<close>

text \<open>
  The headers \<^verbatim>\<open>core/Command.hpp\<close>, \<^verbatim>\<open>core/Event.hpp\<close> and \<^verbatim>\<open>core/Status.hpp\<close> are
  not among the sources; the enumerators below are the ones the dispatcher and the
  widgets name. The dispatcher only ever compares them for equality. Constructors carry
  a prefix because \<^verbatim>\<open>NONE\<close>, \<^verbatim>\<open>ACTION\<close>, \<^verbatim>\<open>SPACE\<close> and \<^verbatim>\<open>BACKSPACE\<close> occur in several
  enumerations.
\<close>

datatype Command = Cmd_NONE | Cmd_ACTION | Cmd_ENTER | Cmd_SPACE | Cmd_BACKSPACE | Cmd_ESCAPE

datatype Event =
    Ev_NONE | Ev_GRAB | Ev_ACTION | Ev_CANCEL | Ev_FOCUS_GAINED | Ev_FOCUS_LOST
  | Ev_END_LINE | Ev_SPACE | Ev_BACKSPACE | Ev_INPUT

datatype RequestEvent = Req_NONE | Req_HOVER | Req_GRAB | Req_FOCUS | Req_INPUT

text \<open>
  Status flags are a bit set. The bit values are those of the \<^verbatim>\<open>Status\<close> enumeration in
  \<^verbatim>\<open>src/include/boto-ui/core/EventDispatcher.hpp\<close> (\<^verbatim>\<open>uint16_t\<close>): hovered 1, grabbed 2,
  focused 4. \<^verbatim>\<open>a | b\<close> is \<open>OR\<close>, \<^verbatim>\<open>s.test(f)\<close> is \<open>test\<close>, \<^verbatim>\<open>s.reset(f)\<close> is \<open>reset_flags\<close>.
\<close>

type_synonym StatusFlags = "16 word"

definition Status_NONE :: StatusFlags where "Status_NONE = 0"
definition Status_HOVERED :: StatusFlags where "Status_HOVERED = 1"
definition Status_GRABBED :: StatusFlags where "Status_GRABBED = 2"
definition Status_FOCUSED :: StatusFlags where "Status_FOCUSED = 4"

definition test :: "StatusFlags \<Rightarrow> StatusFlags \<Rightarrow> bool" where
  "test s f = (s AND f \<noteq> 0)"

definition reset_flags :: "StatusFlags \<Rightarrow> StatusFlags \<Rightarrow> StatusFlags" where
  "reset_flags s f = s AND NOT f"

section \<open>Geometry\<close>

record SDL_Point =
  point_x :: int
  point_y :: int

record SDL_Rect =
  rect_x :: int
  rect_y :: int
  rect_w :: int
  rect_h :: int

text \<open>
  Modelled from the spec: the point-in-rectangle primitive the core consumes from its
  geometry collaborator (SDL's \<^verbatim>\<open>SDL_PointInRect\<close>, which is not under src/): the left and
  top edges are inside, the right and bottom edges are outside.
\<close>

definition SDL_PointInRect :: "SDL_Point \<Rightarrow> SDL_Rect \<Rightarrow> bool" where
  "SDL_PointInRect p r =
     (point_x p \<ge> rect_x r \<and> point_x p < rect_x r + rect_w r \<and>
      point_y p \<ge> rect_y r \<and> point_y p < rect_y r + rect_h r)"

definition SDL_RectEmpty :: "SDL_Rect \<Rightarrow> bool" where
  "SDL_RectEmpty r = (rect_w r \<le> 0 \<or> rect_h r \<le> 0)"

text \<open>
  Modelled from the spec: the rectangle-intersection primitive the core consumes
  (SDL's \<^verbatim>\<open>SDL_IntersectRect(A, B, result)\<close>, not under src/). The dispatcher calls it with
  \<^verbatim>\<open>result\<close> aliasing \<^verbatim>\<open>B\<close>, so in the empty case the position of \<open>B\<close> is kept and only the
  size is zeroed. The returned flag is dropped by the caller and is not modelled.
\<close>

definition SDL_IntersectRect :: "SDL_Rect \<Rightarrow> SDL_Rect \<Rightarrow> SDL_Rect" where
  "SDL_IntersectRect A B =
     (if SDL_RectEmpty A \<or> SDL_RectEmpty B then B\<lparr>rect_w := 0, rect_h := 0\<rparr>
      else
        let Axmin = max (rect_x A) (rect_x B);
            Axmax = min (rect_x A + rect_w A) (rect_x B + rect_w B);
            Aymin = max (rect_y A) (rect_y B);
            Aymax = min (rect_y A + rect_h A) (rect_y B + rect_h B)
        in \<lparr>rect_x = Axmin, rect_y = Aymin, rect_w = Axmax - Axmin, rect_h = Aymax - Aymin\<rparr>)"

section \<open>The event dispatcher (\<^verbatim>\<open>src/unnamed/part_003\<close>)\<close>

definition groupNameSeparator :: char where
  "groupNameSeparator = CHR ''/''"

record EventTargetState =
  idLength :: nat
  rect :: SDL_Rect
  status :: StatusFlags
  event :: Event

record EventDispatcher =
  pointerPos :: SDL_Point
  pointerPressed :: "32 word"
  pointerReleased :: "32 word"
  idCurrent :: string
  hadHover :: bool
  idGrabbed :: string
  idFocus :: string
  idNextFocus :: string
  idLosingFocus :: string
  nextCommand :: Command
  inputBuffer :: string
  elementStack :: "EventTargetState list"

text \<open>
  \<^verbatim>\<open>elementStack\<close> is a \<^verbatim>\<open>std::vector\<close>: \<^verbatim>\<open>back()\<close> is \<open>last\<close>, \<^verbatim>\<open>emplace_back\<close> appends at
  the end, an \<^verbatim>\<open>EventTarget\<close> handle is the index of its entry. A failed \<^verbatim>\<open>SDL_assert\<close> and
  an access outside the vector are the result \<open>None\<close>.
\<close>

subsection \<open>Per-frame triggers\<close>

definition movePointer :: "SDL_Point \<Rightarrow> EventDispatcher \<Rightarrow> EventDispatcher" where
  "movePointer pos s = s\<lparr>pointerPos := pos\<rparr>"

definition pressPointer :: "nat \<Rightarrow> EventDispatcher \<Rightarrow> EventDispatcher option" where
  "pressPointer button s =
     (if button < 32 then Some (s\<lparr>pointerPressed := pointerPressed s OR push_bit button 1\<rparr>)
      else None)"

definition releasePointer :: "nat \<Rightarrow> EventDispatcher \<Rightarrow> EventDispatcher option" where
  "releasePointer button s =
     (if button < 32 then Some (s\<lparr>pointerReleased := pointerReleased s OR push_bit button 1\<rparr>)
      else None)"

definition command :: "Command \<Rightarrow> EventDispatcher \<Rightarrow> EventDispatcher" where
  "command cmd s = s\<lparr>nextCommand := cmd\<rparr>"

definition input :: "string \<Rightarrow> EventDispatcher \<Rightarrow> EventDispatcher" where
  "input text s =
     (if nextCommand s = Cmd_SPACE then
        (let s1 = s\<lparr>nextCommand := Cmd_NONE, inputBuffer := inputBuffer s @ '' ''\<rparr>
         in if text = '' '' then s1 else s1\<lparr>inputBuffer := inputBuffer s1 @ text\<rparr>)
      else if nextCommand s = Cmd_BACKSPACE then
        (if inputBuffer s = [] then s
         else s\<lparr>nextCommand := Cmd_NONE, inputBuffer := butlast (inputBuffer s) @ text\<rparr>)
      else s\<lparr>inputBuffer := inputBuffer s @ text\<rparr>)"

definition reset :: "EventDispatcher \<Rightarrow> EventDispatcher option" where
  "reset s =
     (if elementStack s \<noteq> [] then None
      else
        let s1 = s\<lparr>hadHover := False, pointerPressed := 0, pointerReleased := 0\<rparr>;
            s2 = (if idNextFocus s1 = idFocus s1 then s1\<lparr>idNextFocus := []\<rparr> else s1);
            s3 = (if idLosingFocus s2 = idFocus s2 then s2\<lparr>idFocus := []\<rparr>
                  else s2\<lparr>idLosingFocus := []\<rparr>)
        in Some (s3\<lparr>nextCommand := Cmd_NONE, inputBuffer := []\<rparr>))"

definition tryFocus :: "string \<Rightarrow> EventDispatcher \<Rightarrow> bool \<times> EventDispatcher" where
  "tryFocus qualifiedId s =
     (if idNextFocus s \<noteq> [] \<and> idNextFocus s \<noteq> idFocus s then (False, s)
      else
        let s1 = s\<lparr>idNextFocus := qualifiedId\<rparr>
        in (True, if idFocus s1 \<noteq> [] then s1\<lparr>idLosingFocus := idFocus s1\<rparr> else s1))"

subsection \<open>Resolution of one element\<close>

text \<open>
  The C++ functions take \<^verbatim>\<open>Event& event\<close> and mutate the dispatcher; here each returns the
  status bits, the event and the dispatcher after the call.
\<close>

definition checkActionCommand ::
  "Event \<Rightarrow> EventDispatcher \<Rightarrow> StatusFlags \<times> Event \<times> EventDispatcher" where
  "checkActionCommand ev s =
     (if ev \<noteq> Ev_NONE then (Status_NONE, ev, s\<lparr>idGrabbed := []\<rparr>)
      else case nextCommand s of
          Cmd_NONE \<Rightarrow> (Status_NONE, ev, s)
        | Cmd_ACTION \<Rightarrow> (Status_NONE, Ev_ACTION, s\<lparr>idGrabbed := []\<rparr>)
        | Cmd_ENTER \<Rightarrow> (Status_NONE, Ev_ACTION, s\<lparr>idGrabbed := []\<rparr>)
        | Cmd_SPACE \<Rightarrow> (Status_NONE, Ev_ACTION, s\<lparr>idGrabbed := []\<rparr>)
        | _ \<Rightarrow> (Status_NONE, ev, s\<lparr>idGrabbed := []\<rparr>))"

definition checkInputCommand ::
  "Event \<Rightarrow> EventDispatcher \<Rightarrow> StatusFlags \<times> Event \<times> EventDispatcher" where
  "checkInputCommand ev s =
     (case nextCommand s of
        Cmd_ENTER \<Rightarrow>
          (if inputBuffer s = [] then checkActionCommand Ev_END_LINE s
           else (Status_NONE, Ev_NONE, s))
      | Cmd_SPACE \<Rightarrow>
          (if inputBuffer s = [] then checkActionCommand Ev_SPACE s
           else checkActionCommand Ev_INPUT (s\<lparr>inputBuffer := inputBuffer s @ '' ''\<rparr>))
      | Cmd_BACKSPACE \<Rightarrow>
          (if inputBuffer s = [] then checkActionCommand Ev_BACKSPACE s
           else checkActionCommand Ev_INPUT (s\<lparr>inputBuffer := butlast (inputBuffer s)\<rparr>))
      | Cmd_ESCAPE \<Rightarrow> checkActionCommand Ev_CANCEL s
      | _ \<Rightarrow>
          (if inputBuffer s \<noteq> [] then checkActionCommand Ev_INPUT s
           else checkActionCommand ev s))"

definition checkFocusCommand ::
  "RequestEvent \<Rightarrow> Event \<Rightarrow> EventDispatcher \<Rightarrow> StatusFlags \<times> Event \<times> EventDispatcher" where
  "checkFocusCommand req ev s =
     (if req = Req_FOCUS then checkActionCommand ev s else checkInputCommand ev s)"

definition checkFocus ::
  "RequestEvent \<Rightarrow> Event \<Rightarrow> EventDispatcher \<Rightarrow> StatusFlags \<times> Event \<times> EventDispatcher" where
  "checkFocus req ev s =
     (if idFocus s = idCurrent s then
        (if idLosingFocus s = idCurrent s then (Status_FOCUSED, ev, s)
         else
           (case checkFocusCommand req ev (s\<lparr>idNextFocus := idCurrent s\<rparr>) of
              (st, ev', s') \<Rightarrow> (Status_FOCUSED OR st, ev', s')))
      else if idLosingFocus s = idCurrent s then (Status_NONE, Ev_FOCUS_LOST, s)
      else if idNextFocus s = idCurrent s then
        (Status_FOCUSED, Ev_FOCUS_GAINED, s\<lparr>idFocus := idCurrent s\<rparr>)
      else (Status_NONE, ev, s))"

definition gainFocus ::
  "RequestEvent \<Rightarrow> Event \<Rightarrow> EventDispatcher \<Rightarrow> StatusFlags \<times> Event \<times> EventDispatcher" where
  "gainFocus req ev s =
     (if idFocus s = idCurrent s \<or> idNextFocus s = idCurrent s then checkFocus req ev s
      else
        let claim =
              (let s1 = s\<lparr>idNextFocus := idCurrent s\<rparr>
               in if ev \<noteq> Ev_NONE \<or> idLosingFocus s1 \<noteq> [] \<or>
                     (idFocus s1 \<noteq> [] \<and> idFocus s1 = idGrabbed s1)
                  then (Status_NONE, ev, s1)
                  else (Status_FOCUSED, Ev_FOCUS_GAINED,
                        s1\<lparr>idLosingFocus := idFocus s1, idFocus := idCurrent s1\<rparr>))
        in if idNextFocus s \<noteq> [] then
             (if elementStack s = [] \<or>
                 \<not> test (status (last (elementStack s))) Status_FOCUSED
              then (Status_NONE, ev, s)
              else if event (last (elementStack s)) \<noteq> Ev_NONE \<and>
                      event (last (elementStack s)) \<noteq> Ev_FOCUS_GAINED
              then (Status_NONE, ev, s\<lparr>idNextFocus := idCurrent s, idLosingFocus := idFocus s\<rparr>)
              else claim)
           else claim)"

definition loseFocus ::
  "RequestEvent \<Rightarrow> Event \<Rightarrow> EventDispatcher \<Rightarrow> StatusFlags \<times> Event \<times> EventDispatcher" where
  "loseFocus req ev s =
     (if idFocus s \<noteq> idCurrent s then checkFocus req ev s
      else if ev = Ev_NONE then (Status_NONE, Ev_FOCUS_LOST, s\<lparr>idFocus := []\<rparr>)
      else checkFocus req ev (s\<lparr>idLosingFocus := idCurrent s\<rparr>))"

definition checkGrabCommand ::
  "RequestEvent \<Rightarrow> Event \<Rightarrow> EventDispatcher \<Rightarrow> StatusFlags \<times> Event \<times> EventDispatcher" where
  "checkGrabCommand req ev s =
     (let ev1 = (if nextCommand s = Cmd_ESCAPE then Ev_CANCEL else ev)
      in if req = Req_GRAB then checkActionCommand ev1 s else checkFocus req ev1 s)"

definition checkGrabOut ::
  "RequestEvent \<Rightarrow> Event \<Rightarrow> EventDispatcher \<Rightarrow> StatusFlags \<times> Event \<times> EventDispatcher" where
  "checkGrabOut req ev s =
     (if idGrabbed s \<noteq> idCurrent s then
        (if pointerPressed s = 0 then checkFocus req ev s else loseFocus req ev s)
      else if pointerReleased s = 0 \<and> pointerPressed s = 0 then
        (case checkFocus req ev s of (st, ev', s') \<Rightarrow> (Status_GRABBED OR st, ev', s'))
      else
        let s1 = s\<lparr>idGrabbed := []\<rparr>
        in if req = Req_GRAB \<or> idFocus s1 \<noteq> idCurrent s1 then (Status_NONE, Ev_CANCEL, s1)
           else if pointerPressed s1 \<noteq> 0 then loseFocus req Ev_CANCEL s1
           else checkFocus req Ev_CANCEL s1)"

definition checkGrabOver ::
  "RequestEvent \<Rightarrow> Event \<Rightarrow> EventDispatcher \<Rightarrow> StatusFlags \<times> Event \<times> EventDispatcher" where
  "checkGrabOver req ev s =
     (if pointerReleased s \<noteq> 0 then
        (if idGrabbed s = idCurrent s then checkFocus req Ev_ACTION (s\<lparr>idGrabbed := []\<rparr>)
         else checkFocus req ev s)
      else if pointerPressed s \<noteq> 1 then
        (if idGrabbed s \<noteq> idCurrent s then
           (if req = Req_GRAB then (Status_NONE, ev, s) else gainFocus req ev s)
         else if pointerPressed s = 0 then
           (case checkGrabCommand req ev s of (st, ev', s') \<Rightarrow> (Status_GRABBED OR st, ev', s'))
         else checkFocus req Ev_CANCEL (s\<lparr>idGrabbed := []\<rparr>))
      else
        let s1 = s\<lparr>idGrabbed := idCurrent s\<rparr>
        in if req = Req_GRAB then (Status_GRABBED, Ev_GRAB, s1)
           else (case gainFocus req Ev_GRAB s1 of
                   (st, ev', s') \<Rightarrow> (Status_GRABBED OR st, ev', s')))"

definition checkHover ::
  "RequestEvent \<Rightarrow> SDL_Rect \<Rightarrow> Event \<Rightarrow> EventDispatcher
     \<Rightarrow> StatusFlags \<times> Event \<times> EventDispatcher" where
  "checkHover req r ev s =
     (if hadHover s \<or>
         \<not> (elementStack s = [] \<or> test (status (last (elementStack s))) Status_HOVERED) \<or>
         \<not> SDL_PointInRect (pointerPos s) r
      then (if req = Req_HOVER then (Status_NONE, ev, s) else checkGrabOut req ev s)
      else if req = Req_HOVER then (Status_HOVERED, ev, s)
      else (case checkGrabOver req ev s of
              (st, ev', s') \<Rightarrow> (Status_HOVERED OR st, ev', s')))"

text \<open>
  \<^verbatim>\<open>check\<close> returns the handle (the index of the pushed entry) and the dispatcher. The
  passive entry is \<^verbatim>\<open>EventTargetState{id.size(), rect}\<close>: status and event are
  value-initialised.
\<close>

definition check ::
  "RequestEvent \<Rightarrow> SDL_Rect \<Rightarrow> string \<Rightarrow> EventDispatcher \<Rightarrow> (nat \<times> EventDispatcher) option" where
  "check req r ident s =
     (let s1 = (if elementStack s = [] then s\<lparr>idCurrent := ident\<rparr>
                else s\<lparr>idCurrent := idCurrent s @ [groupNameSeparator] @ ident\<rparr>)
      in if req = Req_NONE then
           Some (length (elementStack s1),
                 s1\<lparr>elementStack := elementStack s1 @
                   [\<lparr>idLength = length ident, rect = r, status = Status_NONE, event = Ev_NONE\<rparr>]\<rparr>)
         else if \<not> (ident \<noteq> [] \<or> req = Req_HOVER) then None
         else
           (case checkHover req r Ev_NONE s1 of
              (st, ev, s2) \<Rightarrow>
                Some (length (elementStack s2),
                      s2\<lparr>elementStack := elementStack s2 @
                        [\<lparr>idLength = length ident, rect = r, status = st, event = ev\<rparr>]\<rparr>)))"

definition popTarget :: "EventDispatcher \<Rightarrow> EventDispatcher option" where
  "popTarget s =
     (if elementStack s = [] then None
      else
        let element = last (elementStack s);
            s1 = s\<lparr>elementStack := butlast (elementStack s)\<rparr>;
            s2 = (if test (status element) Status_HOVERED then s1\<lparr>hadHover := True\<rparr> else s1)
        in if elementStack s2 = [] then Some (s2\<lparr>idCurrent := []\<rparr>)
           else
             let sz = idLength element + 1
             in if \<not> length (idCurrent s2) > sz then None
                else
                  let s3 = s2\<lparr>idCurrent := take (length (idCurrent s2) - sz) (idCurrent s2)\<rparr>;
                      hadGrab = test (status element) Status_GRABBED;
                      hadFocus = test (status element) Status_FOCUSED
                  in if \<not> hadGrab \<and> \<not> hadFocus then Some s3
                     else
                       let sup0 = last (elementStack s3);
                           sup1 = (if hadGrab then
                                     sup0\<lparr>status := reset_flags (status sup0) Status_GRABBED,
                                          event := (if event sup0 = Ev_GRAB then Ev_NONE
                                                    else event sup0)\<rparr>
                                   else sup0);
                           sup2 = (if hadFocus then
                                     sup1\<lparr>status := reset_flags (status sup1) Status_FOCUSED,
                                          event := (if event sup1 = Ev_FOCUS_GAINED then Ev_NONE
                                                    else Ev_FOCUS_LOST)\<rparr>
                                   else sup1)
                       in Some (s3\<lparr>elementStack := butlast (elementStack s3) @ [sup2]\<rparr>))"

subsection \<open>Operations of an \<^verbatim>\<open>EventTarget\<close> handle\<close>

definition discard_state :: "EventTargetState \<Rightarrow> EventTargetState" where
  "discard_state el =
     (if \<not> test (status el) Status_GRABBED then
        el\<lparr>status := reset_flags (status el) Status_HOVERED\<rparr>
      else if event el = Ev_GRAB then
        el\<lparr>status := reset_flags (status el) (Status_HOVERED OR Status_GRABBED),
           event := Ev_NONE\<rparr>
      else el)"

definition discard :: "nat \<Rightarrow> EventDispatcher \<Rightarrow> EventDispatcher option" where
  "discard index s =
     (if index < length (elementStack s) then
        Some (s\<lparr>elementStack := (elementStack s)[index := discard_state (elementStack s ! index)]\<rparr>)
      else None)"

definition shrinkWidth :: "nat \<Rightarrow> int \<Rightarrow> EventDispatcher \<Rightarrow> EventDispatcher option" where
  "shrinkWidth index w' s =
     (if index < length (elementStack s) then
        let el = elementStack s ! index;
            s1 = s\<lparr>elementStack := (elementStack s)[index := el\<lparr>rect := (rect el)\<lparr>rect_w := w'\<rparr>\<rparr>]\<rparr>
        in if point_x (pointerPos s1) - rect_x (rect el) \<ge> w' then discard index s1 else Some s1
      else None)"

definition shrinkHeight :: "nat \<Rightarrow> int \<Rightarrow> EventDispatcher \<Rightarrow> EventDispatcher option" where
  "shrinkHeight index h' s =
     (if index < length (elementStack s) then
        let el = elementStack s ! index;
            s1 = s\<lparr>elementStack := (elementStack s)[index := el\<lparr>rect := (rect el)\<lparr>rect_h := h'\<rparr>\<rparr>]\<rparr>
        in if point_y (pointerPos s1) - rect_y (rect el) \<ge> h' then discard index s1 else Some s1
      else None)"


section \<open>The earlier revision of the dispatcher (\<^verbatim>\<open>src/include/boto-ui/core/EventDispatcher.hpp\<close>)\<close>

text \<open>
  The sources hold a second, earlier revision of the same header. It has its own
  enumerations, no qualified-id accumulator and no keyboard input. Its names carry the
  suffix \<open>_v0\<close>. Status is a plain \<^verbatim>\<open>uint16_t\<close> there, with the same bit values.
\<close>

datatype Event_v0 = Ev0_NONE | Ev0_GRAB | Ev0_ACTION | Ev0_CANCEL | Ev0_FOCUS_GAINED

datatype RequestEvent_v0 = Req0_NONE | Req0_HOVER | Req0_ACTION | Req0_FOCUS

record EventTargetState_v0 =
  rect_v0 :: SDL_Rect
  status_v0 :: "16 word"
  event_v0 :: Event_v0

record EventDispatcher_v0 =
  pointerPos_v0 :: SDL_Point
  pointerPressed_v0 :: "32 word"
  pointerReleased_v0 :: "32 word"
  hadHover_v0 :: bool
  idGrabbed_v0 :: string
  idFocus_v0 :: string
  idNextFocus_v0 :: string
  elementStack_v0 :: "EventTargetState_v0 list"

definition pressPointer_v0 :: "nat \<Rightarrow> EventDispatcher_v0 \<Rightarrow> EventDispatcher_v0 option" where
  "pressPointer_v0 button s =
     (if button < 32 then
        Some (s\<lparr>pointerPressed_v0 := pointerPressed_v0 s OR push_bit button 1\<rparr>)
      else None)"

text \<open>
  \<^verbatim>\<open>pointerReleased = ~1 << button;\<close> parses as \<^verbatim>\<open>(~1) << button\<close> and is an assignment:
  the complement of 1, shifted, converted to \<^verbatim>\<open>Uint32\<close>.
\<close>

definition releasePointer_v0 :: "nat \<Rightarrow> EventDispatcher_v0 \<Rightarrow> EventDispatcher_v0 option" where
  "releasePointer_v0 button s =
     (if button < 32 then Some (s\<lparr>pointerReleased_v0 := push_bit button (NOT 1)\<rparr>)
      else None)"

definition reset_v0 :: "EventDispatcher_v0 \<Rightarrow> EventDispatcher_v0" where
  "reset_v0 s = s\<lparr>hadHover_v0 := False, pointerPressed_v0 := 0, pointerReleased_v0 := 0\<rparr>"

definition checkFocus_v0 ::
  "RequestEvent_v0 \<Rightarrow> string \<Rightarrow> Event_v0 \<Rightarrow> EventDispatcher_v0
     \<Rightarrow> 16 word \<times> Event_v0 \<times> EventDispatcher_v0" where
  "checkFocus_v0 req ident ev s =
     (if idFocus_v0 s = ident then (Status_FOCUSED, ev, s)
      else if idNextFocus_v0 s = ident then
        (Status_FOCUSED, Ev0_FOCUS_GAINED, s\<lparr>idFocus_v0 := ident\<rparr>)
      else (Status_NONE, ev, s))"

definition gainFocus_v0 ::
  "RequestEvent_v0 \<Rightarrow> string \<Rightarrow> Event_v0 \<Rightarrow> EventDispatcher_v0
     \<Rightarrow> 16 word \<times> Event_v0 \<times> EventDispatcher_v0" where
  "gainFocus_v0 req ident ev s =
     (if idFocus_v0 s = ident \<or> idNextFocus_v0 s = ident then checkFocus_v0 req ident ev s
      else if idNextFocus_v0 s = [] then (Status_NONE, ev, s\<lparr>idNextFocus_v0 := ident\<rparr>)
      else (Status_NONE, ev, s))"

definition checkGrabOut_v0 ::
  "RequestEvent_v0 \<Rightarrow> string \<Rightarrow> Event_v0 \<Rightarrow> EventDispatcher_v0
     \<Rightarrow> 16 word \<times> Event_v0 \<times> EventDispatcher_v0" where
  "checkGrabOut_v0 req ident ev s =
     (if idGrabbed_v0 s \<noteq> ident then checkFocus_v0 req ident ev s
      else if pointerReleased_v0 s = 0 \<and> pointerPressed_v0 s = 0 then
        (case checkFocus_v0 req ident ev s of (st, ev', s') \<Rightarrow> (Status_GRABBED OR st, ev', s'))
      else
        let s1 = s\<lparr>idGrabbed_v0 := []\<rparr>
        in (if idFocus_v0 s1 = ident then Status_FOCUSED else Status_NONE, Ev0_CANCEL, s1))"

definition checkGrabOver_v0 ::
  "RequestEvent_v0 \<Rightarrow> string \<Rightarrow> Event_v0 \<Rightarrow> EventDispatcher_v0
     \<Rightarrow> 16 word \<times> Event_v0 \<times> EventDispatcher_v0" where
  "checkGrabOver_v0 req ident ev s =
     (if pointerReleased_v0 s \<noteq> 0 then
        (if idGrabbed_v0 s = ident then
           checkFocus_v0 req ident Ev0_ACTION (s\<lparr>idGrabbed_v0 := []\<rparr>)
         else checkFocus_v0 req ident ev s)
      else if pointerPressed_v0 s \<noteq> 1 then
        (if idGrabbed_v0 s \<noteq> ident then
           (if req = Req0_ACTION then (Status_NONE, ev, s) else gainFocus_v0 req ident ev s)
         else if pointerPressed_v0 s = 0 then
           (case checkFocus_v0 req ident ev s of
              (st, ev', s') \<Rightarrow> (Status_GRABBED OR st, ev', s'))
         else checkFocus_v0 req ident Ev0_CANCEL (s\<lparr>idGrabbed_v0 := []\<rparr>))
      else
        let s1 = s\<lparr>idGrabbed_v0 := ident\<rparr>
        in if req = Req0_ACTION then (Status_GRABBED, Ev0_GRAB, s1)
           else (case gainFocus_v0 req ident Ev0_GRAB s1 of
                   (st, ev', s') \<Rightarrow> (Status_GRABBED OR st, ev', s')))"

definition checkHover_v0 ::
  "RequestEvent_v0 \<Rightarrow> SDL_Rect \<Rightarrow> string \<Rightarrow> Event_v0 \<Rightarrow> EventDispatcher_v0
     \<Rightarrow> 16 word \<times> Event_v0 \<times> EventDispatcher_v0" where
  "checkHover_v0 req r ident ev s =
     (if hadHover_v0 s \<or> \<not> SDL_PointInRect (pointerPos_v0 s) r then
        (if req = Req0_HOVER then (Status_NONE, ev, s) else checkGrabOut_v0 req ident ev s)
      else if req = Req0_HOVER then (Status_HOVERED, ev, s)
      else (case checkGrabOver_v0 req ident ev s of
              (st, ev', s') \<Rightarrow> (Status_HOVERED OR st, ev', s')))"

definition check_v0 ::
  "RequestEvent_v0 \<Rightarrow> SDL_Rect \<Rightarrow> string \<Rightarrow> EventDispatcher_v0 \<Rightarrow> nat \<times> EventDispatcher_v0" where
  "check_v0 req r ident s =
     (let r1 = (if elementStack_v0 s \<noteq> []
                then SDL_IntersectRect (rect_v0 (last (elementStack_v0 s))) r else r)
      in case (if req = Req0_NONE then (Status_NONE, Ev0_NONE, s)
               else checkHover_v0 req r1 ident Ev0_NONE s) of
           (st, ev, s1) \<Rightarrow>
             (length (elementStack_v0 s1),
              s1\<lparr>elementStack_v0 := elementStack_v0 s1 @
                   [\<lparr>rect_v0 = r1, status_v0 = st, event_v0 = ev\<rparr>]\<rparr>))"

section \<open>The container target (\<^verbatim>\<open>src/unnamed/part_001\<close>)\<close>

text \<open>
  \<^verbatim>\<open>Target\<close> holds pointers into the state of its level; the model holds the values.
  \<^verbatim>\<open>Layout\<close> and \<^verbatim>\<open>TargetStyle\<close> are declared in headers that are not among the
  sources; \<^verbatim>\<open>Target\<close> reads the two style fields below. Coordinates are C \<^verbatim>\<open>int\<close>,
  modelled as unbounded integers.
\<close>

datatype Layout = Layout_NONE | Layout_VERTICAL | Layout_HORIZONTAL

record TargetStyle =
  layout :: Layout
  elementSpacing :: int

record Target =
  target_rect :: SDL_Rect
  topLeft :: SDL_Point
  bottomRight :: SDL_Point
  locked :: bool
  style :: TargetStyle

definition makeLen :: "int \<Rightarrow> int \<Rightarrow> bool \<Rightarrow> int \<Rightarrow> int" where
  "makeLen len delta autoPos spacing =
     (if len = 0 then
        (if autoPos \<and> delta \<ge> spacing then delta - spacing else delta)
      else len)"

definition width :: "Target \<Rightarrow> int" where
  "width t = makeLen (rect_w (target_rect t)) (point_x (bottomRight t) - point_x (topLeft t))
               (layout (style t) = Layout_HORIZONTAL) (elementSpacing (style t))"

definition height :: "Target \<Rightarrow> int" where
  "height t = makeLen (rect_h (target_rect t)) (point_y (bottomRight t) - point_y (topLeft t))
                (layout (style t) = Layout_VERTICAL) (elementSpacing (style t))"

definition advance :: "SDL_Point \<Rightarrow> Target \<Rightarrow> Target option" where
  "advance p t =
     (if locked t then None
      else if layout (style t) = Layout_VERTICAL then
        Some (t\<lparr>bottomRight :=
          \<lparr>point_x = max (point_x p + point_x (topLeft t)) (point_x (bottomRight t)),
           point_y = point_y (bottomRight t) + (point_y p + elementSpacing (style t))\<rparr>\<rparr>)
      else if layout (style t) = Layout_HORIZONTAL then
        Some (t\<lparr>bottomRight :=
          \<lparr>point_x = point_x (bottomRight t) + (point_x p + elementSpacing (style t)),
           point_y = max (point_y p + point_y (topLeft t)) (point_y (bottomRight t))\<rparr>\<rparr>)
      else
        Some (t\<lparr>bottomRight :=
          \<lparr>point_x = max (point_x p + point_x (topLeft t)) (point_x (bottomRight t)),
           point_y = max (point_y p + point_y (topLeft t)) (point_y (bottomRight t))\<rparr>\<rparr>))"

section \<open>Predicates used in the statements\<close>



text \<open>
  What the resolution of one element never touches: the stack, the id accumulator, the
  pointer state, the hover latch and the pending command.
\<close>

definition same_frame :: "EventDispatcher \<Rightarrow> EventDispatcher \<Rightarrow> bool" where
  "same_frame s s' =
     (elementStack s' = elementStack s \<and> idCurrent s' = idCurrent s \<and>
      pointerPos s' = pointerPos s \<and> pointerPressed s' = pointerPressed s \<and>
      pointerReleased s' = pointerReleased s \<and> hadHover s' = hadHover s \<and>
      nextCommand s' = nextCommand s)"

section \<open>Concrete states\<close>

text \<open>
  The dispatcher before its first frame (strings empty, masks clear, nothing on the
  stack), and a few states and rectangles that the closed theorems below evaluate the
  code at.
\<close>

definition dispatcher_init :: EventDispatcher where
  "dispatcher_init =
     \<lparr>pointerPos = \<lparr>point_x = 0, point_y = 0\<rparr>, pointerPressed = 0, pointerReleased = 0,
      idCurrent = [], hadHover = False, idGrabbed = [], idFocus = [], idNextFocus = [],
      idLosingFocus = [], nextCommand = Cmd_NONE, inputBuffer = [], elementStack = []\<rparr>"

definition dispatcher_v0_init :: EventDispatcher_v0 where
  "dispatcher_v0_init =
     \<lparr>pointerPos_v0 = \<lparr>point_x = 0, point_y = 0\<rparr>, pointerPressed_v0 = 0,
      pointerReleased_v0 = 0, hadHover_v0 = False, idGrabbed_v0 = [], idFocus_v0 = [],
      idNextFocus_v0 = [], elementStack_v0 = []\<rparr>"

text \<open>
  Element \<open>a\<close> holds focus, element \<open>b\<close> has claimed it with \<^verbatim>\<open>tryFocus\<close> and has not been
  checked since.
\<close>

definition focus_lost_state :: EventDispatcher where
  "focus_lost_state =
     dispatcher_init\<lparr>idFocus := ''a'', idNextFocus := ''b'', idLosingFocus := ''a''\<rparr>"

definition far_rect :: SDL_Rect where
  "far_rect = \<lparr>rect_x = 100, rect_y = 100, rect_w = 10, rect_h = 10\<rparr>"

definition outer_rect :: SDL_Rect where
  "outer_rect = \<lparr>rect_x = 0, rect_y = 0, rect_w = 10, rect_h = 10\<rparr>"

definition overlap_rect :: SDL_Rect where
  "overlap_rect = \<lparr>rect_x = 5, rect_y = 5, rect_w = 20, rect_h = 20\<rparr>"

definition inner_rect :: SDL_Rect where
  "inner_rect = \<lparr>rect_x = 0, rect_y = 0, rect_w = 5, rect_h = 5\<rparr>"

definition pointer_inside :: EventDispatcher where
  "pointer_inside = movePointer \<lparr>point_x = 1, point_y = 1\<rparr> dispatcher_init"

text \<open>One hovered passive element \<open>p\<close> on the stack, in either revision.\<close>

definition outer_pushed :: EventDispatcher where
  "outer_pushed =
     dispatcher_init\<lparr>idCurrent := ''p'',
       elementStack := [\<lparr>idLength = 1, rect = outer_rect, status = Status_HOVERED, event = Ev_NONE\<rparr>]\<rparr>"

definition outer_pushed_v0 :: EventDispatcher_v0 where
  "outer_pushed_v0 =
     dispatcher_v0_init\<lparr>elementStack_v0 :=
       [\<lparr>rect_v0 = outer_rect, status_v0 = Status_HOVERED, event_v0 = Ev0_NONE\<rparr>]\<rparr>"

text \<open>Element \<open>p\<close> and its child \<open>c\<close>, both checked under the pointer on a press frame.\<close>

definition nested_grab :: EventDispatcher where
  "nested_grab =
     dispatcher_init\<lparr>pointerPos := \<lparr>point_x = 1, point_y = 1\<rparr>, pointerPressed := 1,
       idCurrent := ''p/c'', idGrabbed := ''p/c'',
       elementStack :=
         [\<lparr>idLength = 1, rect = outer_rect, status = Status_HOVERED OR Status_GRABBED,
            event = Ev_GRAB\<rparr>,
          \<lparr>idLength = 1, rect = inner_rect, status = Status_HOVERED OR Status_GRABBED,
            event = Ev_GRAB\<rparr>]\<rparr>"

text \<open>A hovered element 20 wide and 20 high with the pointer at (15, 5).\<close>

definition wide_hovered :: EventDispatcher where
  "wide_hovered =
     dispatcher_init\<lparr>pointerPos := \<lparr>point_x = 15, point_y = 5\<rparr>, idCurrent := ''box'',
       elementStack :=
         [\<lparr>idLength = 3, rect = \<lparr>rect_x = 0, rect_y = 0, rect_w = 20, rect_h = 20\<rparr>,
            status = Status_HOVERED, event = Ev_NONE\<rparr>]\<rparr>"


text \<open>An auto-sized vertical level with spacing 4 and no child placed yet.\<close>

definition empty_vertical_level :: Target where
  "empty_vertical_level =
     \<lparr>target_rect = \<lparr>rect_x = 0, rect_y = 0, rect_w = 0, rect_h = 0\<rparr>,
      topLeft = \<lparr>point_x = 0, point_y = 0\<rparr>, bottomRight = \<lparr>point_x = 0, point_y = 0\<rparr>,
      locked = False, style = \<lparr>layout = Layout_VERTICAL, elementSpacing = 4\<rparr>\<rparr>"

section \<open>Results\<close>

lemmas status_defs = Status_NONE_def Status_HOVERED_def Status_GRABBED_def Status_FOCUSED_def

lemmas resolve_defs =
  checkHover_def checkGrabOver_def checkGrabOut_def checkGrabCommand_def checkFocus_def
  gainFocus_def loseFocus_def checkFocusCommand_def checkInputCommand_def checkActionCommand_def

subsection \<open>Status flags\<close>

lemma word_or_eq_0: "(a OR b = (0::'a::len word)) \<longleftrightarrow> a = 0 \<and> b = 0"
  by (auto simp: bit_eq_iff bit_or_iff)

lemma test_or: "test (a OR b) f \<longleftrightarrow> test a f \<or> test b f"
  unfolding test_def by (simp add: bit.conj_disj_distrib2 word_or_eq_0)

lemma test_flags [simp]:
  "\<not> test Status_NONE f"
  "test Status_HOVERED Status_HOVERED" "\<not> test Status_HOVERED Status_GRABBED"
  "\<not> test Status_HOVERED Status_FOCUSED"
  "\<not> test Status_GRABBED Status_HOVERED" "test Status_GRABBED Status_GRABBED"
  "\<not> test Status_GRABBED Status_FOCUSED"
  "\<not> test Status_FOCUSED Status_HOVERED" "\<not> test Status_FOCUSED Status_GRABBED"
  "test Status_FOCUSED Status_FOCUSED"
  by (simp_all add: test_def status_defs)

lemma test_reset_same: "\<not> test (reset_flags st f) f"
  unfolding test_def reset_flags_def by (simp add: bit_eq_iff bit_and_iff bit_not_iff)


lemma test_reset_both:
  "\<not> test (reset_flags st (f OR g)) f" "\<not> test (reset_flags st (f OR g)) g"
  unfolding test_def reset_flags_def
  by (auto simp: bit_eq_iff bit_and_iff bit_not_iff bit_or_iff)

subsection \<open>What resolving an element leaves alone\<close>

lemma checkActionCommand_frame:
  "checkActionCommand ev s = (st, ev', s') \<Longrightarrow> same_frame s s'"
  by (auto simp: checkActionCommand_def same_frame_def split: if_splits Command.splits)

lemma checkInputCommand_frame:
  "checkInputCommand ev s = (st, ev', s') \<Longrightarrow> same_frame s s'"
  by (auto simp: checkInputCommand_def same_frame_def split: if_splits Command.splits
      dest!: checkActionCommand_frame)

lemma checkFocusCommand_frame:
  "checkFocusCommand req ev s = (st, ev', s') \<Longrightarrow> same_frame s s'"
  by (auto simp: checkFocusCommand_def split: if_splits
      dest: checkActionCommand_frame checkInputCommand_frame)

lemma checkFocus_frame:
  "checkFocus req ev s = (st, ev', s') \<Longrightarrow> same_frame s s'"
  by (auto simp: checkFocus_def same_frame_def split: if_splits prod.splits
      dest!: checkFocusCommand_frame)

lemma gainFocus_frame:
  "gainFocus req ev s = (st, ev', s') \<Longrightarrow> same_frame s s'"
  by (auto simp: gainFocus_def Let_def split: if_splits dest: checkFocus_frame)
     (auto simp: same_frame_def)

lemma loseFocus_frame:
  "loseFocus req ev s = (st, ev', s') \<Longrightarrow> same_frame s s'"
  by (auto simp: loseFocus_def same_frame_def split: if_splits dest!: checkFocus_frame)

lemma checkGrabCommand_frame:
  "checkGrabCommand req ev s = (st, ev', s') \<Longrightarrow> same_frame s s'"
  by (auto simp: checkGrabCommand_def Let_def split: if_splits
      dest: checkFocus_frame checkActionCommand_frame)

lemma checkGrabOut_frame:
  "checkGrabOut req ev s = (st, ev', s') \<Longrightarrow> same_frame s s'"
  by (auto simp: checkGrabOut_def Let_def same_frame_def split: if_splits prod.splits
      dest!: checkFocus_frame loseFocus_frame)

lemma checkGrabOver_frame:
  "checkGrabOver req ev s = (st, ev', s') \<Longrightarrow> same_frame s s'"
  by (auto simp: checkGrabOver_def Let_def same_frame_def split: if_splits prod.splits
      dest!: checkFocus_frame gainFocus_frame checkGrabCommand_frame)

lemma checkHover_frame:
  "checkHover req r ev s = (st, ev', s') \<Longrightarrow> same_frame s s'"
  by (auto simp: checkHover_def split: if_splits prod.splits
      dest: checkGrabOut_frame checkGrabOver_frame)
     (auto simp: same_frame_def)

text \<open>
  \<^verbatim>\<open>check\<close> returns unless its assertion fails, pushes exactly one entry and stores the
  argument rectangle and the length of the local id in it.
\<close>

lemma check_pushes:
  assumes "req = Req_NONE \<or> ident \<noteq> [] \<or> req = Req_HOVER"
  shows "\<exists>s' e. check req r ident s = Some (length (elementStack s), s') \<and>
           elementStack s' = elementStack s @ [e] \<and> rect e = r \<and> idLength e = length ident"
proof (cases "req = Req_NONE")
  case True
  then show ?thesis by (simp add: check_def Let_def)
next
  case False
  let ?s1 = "if elementStack s = [] then s\<lparr>idCurrent := ident\<rparr>
             else s\<lparr>idCurrent := idCurrent s @ [groupNameSeparator] @ ident\<rparr>"
  obtain st ev s2 where h: "checkHover req r Ev_NONE ?s1 = (st, ev, s2)"
    by (cases "checkHover req r Ev_NONE ?s1") auto
  from checkHover_frame [OF h] have "elementStack s2 = elementStack s"
    by (simp add: same_frame_def split: if_splits)
  with False assms h show ?thesis by (simp add: check_def Let_def)
qed


subsection \<open>Resolution when the element has no part in the focus protocol\<close>








subsection \<open>Text input while a command is pending\<close>

text \<open>
  C9. When the pending command is BACKSPACE and the input buffer is empty,
  \<^verbatim>\<open>input(text)\<close> returns at once: the buffer stays empty, the pending command stays
  BACKSPACE and the text is dropped; no field of the dispatcher changes.
\<close>

theorem input_backspace_empty_discards:
  assumes "nextCommand s = Cmd_BACKSPACE" and "inputBuffer s = []"
  shows "input text s = s \<and> inputBuffer (input text s) = [] \<and>
         nextCommand (input text s) = Cmd_BACKSPACE"
  using assms by (simp add: input_def)

theorem input_backspace_empty_discards_witness:
  "nextCommand (command Cmd_BACKSPACE dispatcher_init) = Cmd_BACKSPACE \<and>
   inputBuffer (command Cmd_BACKSPACE dispatcher_init) = [] \<and>
   input ''abc'' (command Cmd_BACKSPACE dispatcher_init) = command Cmd_BACKSPACE dispatcher_init \<and>
   inputBuffer (input ''abc'' (command Cmd_BACKSPACE dispatcher_init)) = []"
proof -
  have c: "nextCommand (command Cmd_BACKSPACE dispatcher_init) = Cmd_BACKSPACE"
    by (simp add: command_def)
  have b: "inputBuffer (command Cmd_BACKSPACE dispatcher_init) = []"
    by (simp add: command_def dispatcher_init_def)
  from input_backspace_empty_discards [OF c b, of "''abc''"] c b show ?thesis by simp
qed

subsection \<open>The release trigger\<close>

text \<open>
  In \<^verbatim>\<open>src/unnamed/part_003\<close> the release trigger ORs bit \<open>button\<close> into the released
  mask: the bit is set afterwards, every bit set before stays set, and the pressed mask
  is untouched.
\<close>

lemma releasePointer_ors_bit:
  assumes "button < 32"
  shows "\<exists>s'. releasePointer button s = Some s' \<and>
           pointerReleased s' = pointerReleased s OR push_bit button 1 \<and>
           bit (pointerReleased s') button \<and>
           (\<forall>n. bit (pointerReleased s) n \<longrightarrow> bit (pointerReleased s') n) \<and>
           pointerPressed s' = pointerPressed s"
  using assms by (simp add: releasePointer_def bit_simps)

text \<open>
  C6. The release trigger sets bit \<open>b\<close> of the released mask by OR-ing it in and keeps
  the bits already set. The earlier revision of the header does not: it assigns
  \<^verbatim>\<open>~1 << button\<close>. With button 0 already released, releasing button 1 leaves the mask
  \<open>0xFFFFFFFC\<close>: neither bit 1 nor bit 0 is set.
\<close>

theorem releasePointer_v0_overwrites_mask:
  "releasePointer_v0 1 (dispatcher_v0_init\<lparr>pointerReleased_v0 := 1\<rparr>)
     = Some (dispatcher_v0_init\<lparr>pointerReleased_v0 := 4294967292\<rparr>) \<and>
   \<not> bit (4294967292 :: 32 word) (1::nat) \<and> \<not> bit (4294967292 :: 32 word) (0::nat)"
  by (simp add: releasePointer_v0_def dispatcher_v0_init_def bit_iff_odd_drop_bit)

text \<open>For button 31 the assigned mask is 0: the release is not recorded at all.\<close>

lemma releasePointer_v0_button_31: "releasePointer_v0 31 s = Some (s\<lparr>pointerReleased_v0 := 0\<rparr>)"
  by (simp add: releasePointer_v0_def)

subsection \<open>Reset\<close>

text \<open>
  The state \<open>focus_lost_state\<close> is reached from the initial dispatcher: \<open>a\<close> claims and gains
  focus in one frame, and \<open>b\<close> claims it in the next.
\<close>

lemma reach_focus_lost:
  "Option.bind (check Req_FOCUS far_rect ''a'' (snd (tryFocus ''a'' dispatcher_init)))
     (\<lambda>(i, s). Option.bind (popTarget s)
        (\<lambda>s. map_option (\<lambda>s. snd (tryFocus ''b'' s)) (reset s))) = Some focus_lost_state"
  by (simp add: check_def resolve_defs popTarget_def reset_def tryFocus_def dispatcher_init_def
      focus_lost_state_def far_rect_def SDL_PointInRect_def Let_def)

text \<open>
  C7, as stated, fails: a second \<^verbatim>\<open>reset\<close> right after the first is not always a no-op.
  At \<open>focus_lost_state\<close> the first call clears the focused id and keeps the losing-focus
  id \<open>a\<close>; the second call clears the losing-focus id.
\<close>

theorem reset_twice_counterexample:
  "reset focus_lost_state = Some (dispatcher_init\<lparr>idNextFocus := ''b'', idLosingFocus := ''a''\<rparr>) \<and>
   reset (dispatcher_init\<lparr>idNextFocus := ''b'', idLosingFocus := ''a''\<rparr>)
     = Some (dispatcher_init\<lparr>idNextFocus := ''b''\<rparr>) \<and>
   dispatcher_init\<lparr>idNextFocus := ''b'', idLosingFocus := ''a''\<rparr>
     \<noteq> dispatcher_init\<lparr>idNextFocus := ''b''\<rparr>"
  by (simp add: reset_def focus_lost_state_def dispatcher_init_def)

text \<open>
  C7, amended. With an empty element stack, two calls of \<^verbatim>\<open>reset\<close> in a row both pass
  the assertion, and the second changes at most the losing-focus id, which it clears.
  It changes nothing unless focus was lost in the frame that the first call closed
  (losing-focus id equal to a non-empty focused id before the first call); in that case
  the first call keeps the losing-focus id. A third call changes nothing.
\<close>

theorem reset_twice:
  assumes "elementStack s = []"
  shows "\<exists>s1 s2. reset s = Some s1 \<and> reset s1 = Some s2 \<and>
           s2 = s1\<lparr>idLosingFocus := []\<rparr> \<and>
           (if idLosingFocus s = idFocus s \<and> idFocus s \<noteq> [] then idLosingFocus s1 = idFocus s
            else s2 = s1) \<and>
           reset s2 = Some s2"
  using assms by (simp add: reset_def Let_def)

theorem reset_twice_witness:
  "elementStack dispatcher_init = [] \<and>
   (\<exists>s1 s2. reset dispatcher_init = Some s1 \<and> reset s1 = Some s2 \<and> s2 = s1)"
proof -
  have e: "elementStack dispatcher_init = []" by (simp add: dispatcher_init_def)
  have i: "\<not> (idLosingFocus dispatcher_init = idFocus dispatcher_init \<and>
              idFocus dispatcher_init \<noteq> [])"
    by (simp add: dispatcher_init_def)
  from reset_twice [OF e] i e show ?thesis by auto
qed

subsection \<open>Effective size of a container level\<close>

text \<open>
  C8, as stated, fails: with a zero requested height and a vertical layout the query
  does not always return the content extent minus one spacing. For a level with
  spacing 4 and no child the extent is 0, the claimed value is \<open>-4\<close>, and \<^verbatim>\<open>height\<close>
  returns 0.
\<close>

theorem auto_height_counterexample:
  "rect_h (target_rect empty_vertical_level) = 0 \<and>
   layout (style empty_vertical_level) = Layout_VERTICAL \<and>
   point_y (bottomRight empty_vertical_level) - point_y (topLeft empty_vertical_level)
     - elementSpacing (style empty_vertical_level) = - 4 \<and>
   height empty_vertical_level = 0"
  by (simp add: empty_vertical_level_def height_def makeLen_def)

text \<open>
  C8, amended. The effective width (height) is the requested dimension when that is
  non-zero; otherwise it is the content extent along the axis, minus one
  \<^verbatim>\<open>elementSpacing\<close> when the layout stacks along that axis and the extent is at least
  \<^verbatim>\<open>elementSpacing\<close>, and the extent itself in every other case. For an auto-sized
  vertical level with spacing 4, wherever it lies, child advances of (20,10) and
  (15,10) give height 24 and width 20.
\<close>

theorem effective_size:
  "width t =
     (if rect_w (target_rect t) \<noteq> 0 then rect_w (target_rect t)
      else if layout (style t) = Layout_HORIZONTAL \<and>
              elementSpacing (style t) \<le> point_x (bottomRight t) - point_x (topLeft t)
      then point_x (bottomRight t) - point_x (topLeft t) - elementSpacing (style t)
      else point_x (bottomRight t) - point_x (topLeft t)) \<and>
   height t =
     (if rect_h (target_rect t) \<noteq> 0 then rect_h (target_rect t)
      else if layout (style t) = Layout_VERTICAL \<and>
              elementSpacing (style t) \<le> point_y (bottomRight t) - point_y (topLeft t)
      then point_y (bottomRight t) - point_y (topLeft t) - elementSpacing (style t)
      else point_y (bottomRight t) - point_y (topLeft t)) \<and>
   (\<exists>t1 t2.
      advance \<lparr>point_x = 20, point_y = 10\<rparr>
        \<lparr>target_rect = r\<lparr>rect_w := 0, rect_h := 0\<rparr>, topLeft = origin, bottomRight = origin,
         locked = False, style = \<lparr>layout = Layout_VERTICAL, elementSpacing = 4\<rparr>\<rparr> = Some t1 \<and>
      advance \<lparr>point_x = 15, point_y = 10\<rparr> t1 = Some t2 \<and>
      height t2 = 24 \<and> width t2 = 20)"
  by (simp add: width_def height_def makeLen_def advance_def)

subsection \<open>Shrinking a pushed element\<close>

lemma discard_state_flags:
  "\<not> test (status el) Status_GRABBED \<Longrightarrow>
     \<not> test (status (discard_state el)) Status_HOVERED \<and> event (discard_state el) = event el"
  "test (status el) Status_GRABBED \<Longrightarrow> event el = Ev_GRAB \<Longrightarrow>
     \<not> test (status (discard_state el)) Status_HOVERED \<and>
     \<not> test (status (discard_state el)) Status_GRABBED \<and> event (discard_state el) = Ev_NONE"
  "test (status el) Status_GRABBED \<Longrightarrow> event el \<noteq> Ev_GRAB \<Longrightarrow> discard_state el = el"
  by (simp_all add: discard_state_def test_reset_same test_reset_both)


lemma wide_hovered_reached:
  "check Req_HOVER \<lparr>rect_x = 0, rect_y = 0, rect_w = 20, rect_h = 20\<rparr> ''box''
     (movePointer \<lparr>point_x = 15, point_y = 5\<rparr> dispatcher_init) = Some (0, wide_hovered)"
  by (simp add: check_def checkHover_def dispatcher_init_def wide_hovered_def movePointer_def
      SDL_PointInRect_def)


subsection \<open>Keyboard commands of a focused text element\<close>



text \<open>The same through \<^verbatim>\<open>check\<close>: a focused text box, empty buffer, BACKSPACE pending.\<close>

lemma focused_backspace_scenario:
  "map_option (\<lambda>(i, s). map event (elementStack s))
     (check Req_INPUT far_rect ''edit''
        (command Cmd_BACKSPACE (dispatcher_init\<lparr>idFocus := ''edit''\<rparr>))) = Some [Ev_BACKSPACE]"
  by (simp add: check_def resolve_defs command_def dispatcher_init_def far_rect_def
      SDL_PointInRect_def Let_def)

subsection \<open>The rectangle stored by check\<close>

lemma SDL_IntersectRect_points:
  "SDL_PointInRect p (SDL_IntersectRect A B) \<longleftrightarrow> SDL_PointInRect p A \<and> SDL_PointInRect p B"
  by (auto simp: SDL_IntersectRect_def SDL_PointInRect_def SDL_RectEmpty_def Let_def)

lemma checkFocus_v0_stack:
  "checkFocus_v0 req ident ev s = (st, ev', s') \<Longrightarrow> elementStack_v0 s' = elementStack_v0 s"
  by (auto simp: checkFocus_v0_def split: if_splits)

lemma gainFocus_v0_stack:
  "gainFocus_v0 req ident ev s = (st, ev', s') \<Longrightarrow> elementStack_v0 s' = elementStack_v0 s"
  by (auto simp: gainFocus_v0_def split: if_splits dest: checkFocus_v0_stack)

lemma checkGrabOut_v0_stack:
  "checkGrabOut_v0 req ident ev s = (st, ev', s') \<Longrightarrow> elementStack_v0 s' = elementStack_v0 s"
  by (auto simp: checkGrabOut_v0_def Let_def split: if_splits prod.splits
      dest: checkFocus_v0_stack)

lemma checkGrabOver_v0_stack:
  "checkGrabOver_v0 req ident ev s = (st, ev', s') \<Longrightarrow> elementStack_v0 s' = elementStack_v0 s"
  by (auto simp: checkGrabOver_v0_def Let_def split: if_splits prod.splits
      dest!: checkFocus_v0_stack gainFocus_v0_stack)

lemma checkHover_v0_stack:
  "checkHover_v0 req r ident ev s = (st, ev', s') \<Longrightarrow> elementStack_v0 s' = elementStack_v0 s"
  by (auto simp: checkHover_v0_def split: if_splits prod.splits
      dest: checkGrabOut_v0_stack checkGrabOver_v0_stack)

lemma check_v0_pushes:
  "\<exists>s' e. check_v0 req r ident s = (length (elementStack_v0 s), s') \<and>
      elementStack_v0 s' = elementStack_v0 s @ [e] \<and>
      rect_v0 e = (if elementStack_v0 s \<noteq> []
                   then SDL_IntersectRect (rect_v0 (last (elementStack_v0 s))) r else r)"
proof (cases "req = Req0_NONE")
  case True
  then show ?thesis by (simp add: check_v0_def Let_def)
next
  case False
  let ?r1 = "if elementStack_v0 s \<noteq> []
             then SDL_IntersectRect (rect_v0 (last (elementStack_v0 s))) r else r"
  obtain st ev s1 where h: "checkHover_v0 req ?r1 ident Ev0_NONE s = (st, ev, s1)"
    by (cases "checkHover_v0 req ?r1 ident Ev0_NONE s") auto
  from checkHover_v0_stack [OF h] False h show ?thesis
    by (simp add: check_v0_def Let_def)
qed

lemma outer_pushed_reached:
  "check Req_HOVER outer_rect ''p'' dispatcher_init = Some (0, outer_pushed)"
  by (simp add: check_def checkHover_def dispatcher_init_def outer_pushed_def outer_rect_def
      SDL_PointInRect_def)

lemma outer_pushed_v0_reached:
  "check_v0 Req0_HOVER outer_rect ''p'' dispatcher_v0_init = (0, outer_pushed_v0)"
  by (simp add: check_v0_def checkHover_v0_def dispatcher_v0_init_def outer_pushed_v0_def
      outer_rect_def SDL_PointInRect_def)

text \<open>
  C5, as stated, fails on \<^verbatim>\<open>src/unnamed/part_003\<close>: with \<open>p\<close> on the stack at
  \<open>{0,0,10,10}\<close>, checking \<open>c\<close> at \<open>{5,5,20,20}\<close> stores \<open>{5,5,20,20}\<close>, which is not the
  intersection \<open>{5,5,5,5}\<close> and reaches beyond the right and bottom edges of \<open>p\<close>.
\<close>

theorem check_rect_not_clipped_counterexample:
  "map_option (\<lambda>(i, s). map rect (elementStack s))
     (Option.bind (check Req_HOVER outer_rect ''p'' dispatcher_init)
        (\<lambda>(i, s). check Req_HOVER overlap_rect ''c'' s))
     = Some [outer_rect, overlap_rect] \<and>
   SDL_IntersectRect outer_rect overlap_rect = \<lparr>rect_x = 5, rect_y = 5, rect_w = 5, rect_h = 5\<rparr> \<and>
   overlap_rect \<noteq> \<lparr>rect_x = 5, rect_y = 5, rect_w = 5, rect_h = 5\<rparr> \<and>
   rect_x overlap_rect + rect_w overlap_rect > rect_x outer_rect + rect_w outer_rect \<and>
   rect_y overlap_rect + rect_h overlap_rect > rect_y outer_rect + rect_h outer_rect"
  by (simp add: check_def checkHover_def dispatcher_init_def outer_rect_def overlap_rect_def
      SDL_PointInRect_def SDL_IntersectRect_def SDL_RectEmpty_def Let_def)

text \<open>
  C5, amended. With a non-empty stack, \<^verbatim>\<open>check\<close> of \<^verbatim>\<open>src/unnamed/part_003\<close> pushes one
  entry whose rectangle is the argument rectangle as given, with no clipping against
  the parent entry, and leaves the entries below as they were. The earlier revision in
  \<^verbatim>\<open>src/include/boto-ui/core/EventDispatcher.hpp\<close> pushes one entry whose rectangle is
  \<^verbatim>\<open>SDL_IntersectRect\<close> of the parent entry's rectangle and the argument.
\<close>

theorem check_stored_rect:
  assumes "elementStack s \<noteq> []" and "elementStack_v0 s0 \<noteq> []"
    and "req = Req_NONE \<or> ident \<noteq> [] \<or> req = Req_HOVER"
  shows "(\<exists>s' e. check req r ident s = Some (length (elementStack s), s') \<and>
            elementStack s' = elementStack s @ [e] \<and> rect e = r) \<and>
         (\<exists>s0' e0. check_v0 req0 r ident0 s0 = (length (elementStack_v0 s0), s0') \<and>
            elementStack_v0 s0' = elementStack_v0 s0 @ [e0] \<and>
            rect_v0 e0 = SDL_IntersectRect (rect_v0 (last (elementStack_v0 s0))) r)"
proof -
  from check_pushes [OF assms(3), of r s]
  have a: "\<exists>s' e. check req r ident s = Some (length (elementStack s), s') \<and>
            elementStack s' = elementStack s @ [e] \<and> rect e = r"
    by blast
  from check_v0_pushes [of req0 r ident0 s0] assms(2)
  have "\<exists>s0' e0. check_v0 req0 r ident0 s0 = (length (elementStack_v0 s0), s0') \<and>
            elementStack_v0 s0' = elementStack_v0 s0 @ [e0] \<and>
            rect_v0 e0 = SDL_IntersectRect (rect_v0 (last (elementStack_v0 s0))) r"
    by simp
  with a show ?thesis by blast
qed

theorem check_stored_rect_witness:
  "elementStack outer_pushed \<noteq> [] \<and> elementStack_v0 outer_pushed_v0 \<noteq> [] \<and>
   (\<exists>s'. check Req_HOVER overlap_rect ''c'' outer_pushed = Some (1, s') \<and>
      map rect (elementStack s') = [outer_rect, overlap_rect]) \<and>
   (\<exists>s0'. check_v0 Req0_HOVER overlap_rect ''c'' outer_pushed_v0 = (1, s0') \<and>
      map rect_v0 (elementStack_v0 s0') =
        [outer_rect, \<lparr>rect_x = 5, rect_y = 5, rect_w = 5, rect_h = 5\<rparr>])"
proof -
  have a: "elementStack outer_pushed \<noteq> []" by (simp add: outer_pushed_def)
  have b: "elementStack_v0 outer_pushed_v0 \<noteq> []" by (simp add: outer_pushed_v0_def)
  have c: "Req_HOVER = Req_NONE \<or> ''c'' \<noteq> [] \<or> Req_HOVER = Req_HOVER" by simp
  have i: "SDL_IntersectRect outer_rect overlap_rect
             = \<lparr>rect_x = 5, rect_y = 5, rect_w = 5, rect_h = 5\<rparr>"
    by (simp add: SDL_IntersectRect_def SDL_RectEmpty_def outer_rect_def overlap_rect_def)
  from check_stored_rect [OF a b c, where r = overlap_rect and ?req0.0 = Req0_HOVER
      and ?ident0.0 = "''c''"] a b i
  show ?thesis
    by (auto simp: outer_pushed_def outer_pushed_v0_def)
qed

subsection \<open>GRABBED and FOCUSED flags on the stack\<close>

lemma nested_grab_reached:
  "Option.bind (pressPointer 0 pointer_inside)
     (\<lambda>s. Option.bind (check Req_GRAB outer_rect ''p'' s)
        (\<lambda>(i, s). check Req_GRAB inner_rect ''c'' s)) = Some (1, nested_grab)"
  by (simp add: pressPointer_def pointer_inside_def movePointer_def dispatcher_init_def
      check_def resolve_defs outer_rect_def inner_rect_def SDL_PointInRect_def Let_def
      nested_grab_def groupNameSeparator_def test_or)






subsection \<open>Claiming focus\<close>




subsection \<open>The grab lifecycle\<close>




end
